theory Spec2Isabelle
  imports Complex_Main
begin

section \<open>Common conventions\<close>

text \<open>
  Python floats and ints are embedded as \<^typ>\<open>real\<close>: the arithmetic of the agents is
  the exact arithmetic of the formulas, without rounding. A true division by zero raises
  \<open>ZeroDivisionError\<close> in Python, for ints and for floats alike; it is a value here.
  \<open>KeyError\<close> stands for the activation of an identifier that is not registered in the
  schedule.
\<close>

datatype error = ZeroDivisionError | KeyError

definition truediv :: "real \<Rightarrow> real \<Rightarrow> error + real" where
  "truediv a b = (if b = 0 then Inl ZeroDivisionError else Inr (a / b))"

section \<open>Inflation model: data (Midterm\_2/agents.py, Midterm\_2/model.py)\<close>

record Household =
  formal :: bool
  savings :: real
  income :: real
  consumption_rate :: real
  expected_inflation :: real
  interest_rate_sensitivity :: real

record Firm =
  firm_formal :: bool
  production_capacity :: real
  current_production :: real
  price_level :: real
  markup :: real
  central_bank_influence :: real

record CentralBank =
  inflation_target :: real
  interest_rate :: real
  taylor_inflation_weight :: real
  taylor_output_weight :: real
  nominal_rate :: real

text \<open>
  The schedule holds the agents in the order of registration, so the index of an agent is
  its \<open>unique_id\<close>. The central bank object is shared by the schedule and by the model's
  \<open>central_bank\<close> attribute: it is stored once, in the model, and the schedule refers to it.
\<close>

datatype agent = AHousehold Household | AFirm Firm | ACentralBank

record model_vars =
  Inflation :: real
  Interest_Rate :: real
  Aggregate_Demand :: real
  Total_Production :: real
  Inflation_Gap :: real
  Formal_Inflation_Expectation :: real
  Informal_Inflation_Expectation :: real

record agent_vars =
  AgentID :: nat
  Formal :: "bool option"
  Type :: string
  Expected_Inflation :: "real option"
  Price_Level :: "real option"
  Savings :: "real option"

record InflationModel =
  num_households :: nat
  num_firms :: nat
  banking_inclusion_rate :: real
  formal_sector_size :: real
  current_inflation :: real
  price_index :: real
  previous_price_index :: real
  aggregate_demand :: real
  total_production :: real
  price_index_numerator :: real
  total_production_capacity :: real
  central_bank :: CentralBank
  schedule :: "agent list"
  model_vars_series :: "model_vars list"
  agent_vars_series :: "agent_vars list list"

section \<open>Inflation model: agents\<close>

definition Household_init :: "InflationModel \<Rightarrow> bool \<Rightarrow> real \<Rightarrow> real \<Rightarrow> Household" where
  "Household_init model fml sav inc =
     \<lparr>formal = fml, savings = sav, income = inc, consumption_rate = 0.8,
      expected_inflation = current_inflation model,
      interest_rate_sensitivity = (if fml then 0.5 else 0.1)\<rparr>"

text \<open>The local variable \<open>adjusted_consumption\<close> of \<open>Household.step\<close>, after the floor.\<close>

definition adjusted_consumption :: "Household \<Rightarrow> InflationModel \<Rightarrow> real" where
  "adjusted_consumption h model =
     (let base_consumption = income h * consumption_rate h;
          interest_effect = - interest_rate_sensitivity h * interest_rate (central_bank model);
          adjusted = base_consumption * (1 + interest_effect)
      in max adjusted (0.2 * income h))"

definition Household_step :: "Household \<Rightarrow> InflationModel \<Rightarrow> Household \<times> InflationModel" where
  "Household_step h model =
     (let target_gap = inflation_target (central_bank model) - expected_inflation h;
          adjustment_speed = (if formal h then 0.5 else 0.2);
          h1 = h\<lparr>expected_inflation := expected_inflation h + adjustment_speed * target_gap\<rparr>;
          c = adjusted_consumption h1 model;
          h2 = h1\<lparr>savings := savings h1 + (income h1 - c)\<rparr>
      in (h2, model\<lparr>aggregate_demand := aggregate_demand model + c\<rparr>))"

definition Firm_init :: "bool \<Rightarrow> real \<Rightarrow> Firm" where
  "Firm_init fml cap =
     \<lparr>firm_formal = fml, production_capacity = cap, current_production = cap * 0.8,
      price_level = 1.0, markup = 0.15,
      central_bank_influence = (if fml then 0.8 else 0.3)\<rparr>"

definition households_of :: "agent list \<Rightarrow> Household list" where
  "households_of ags = concat (map (\<lambda>a. case a of AHousehold h \<Rightarrow> [h] | _ \<Rightarrow> []) ags)"

definition mean_expectation :: "Household list \<Rightarrow> real \<Rightarrow> real" where
  "mean_expectation hs fallback =
     (if hs = [] then fallback
      else sum_list (map expected_inflation hs) / real (length hs))"

definition get_average_inflation_expectation :: "InflationModel \<Rightarrow> real" where
  "get_average_inflation_expectation model =
     mean_expectation (households_of (schedule model)) (current_inflation model)"

definition get_formal_inflation_expectation :: "InflationModel \<Rightarrow> real" where
  "get_formal_inflation_expectation model =
     mean_expectation (filter formal (households_of (schedule model))) (current_inflation model)"

definition get_informal_inflation_expectation :: "InflationModel \<Rightarrow> real" where
  "get_informal_inflation_expectation model =
     mean_expectation (filter (\<lambda>h. \<not> formal h) (households_of (schedule model)))
       (current_inflation model)"

text \<open>
  The local variable \<open>demand_pressure\<close> of \<open>Firm.step\<close>: it reads the model's
  \<open>aggregate_demand\<close> as it is when the firm is activated.
\<close>

definition demand_pressure :: "InflationModel \<Rightarrow> error + real" where
  "demand_pressure model =
     (case truediv (aggregate_demand model) (total_production_capacity model) of
        Inl e \<Rightarrow> Inl e
      | Inr q \<Rightarrow> Inr (q - 1))"

text \<open>
  \<open>Firm.step\<close>. Both divisions come before the first assignment, so a step that raises
  has changed nothing.
\<close>

definition Firm_step :: "Firm \<Rightarrow> InflationModel \<Rightarrow> error + (Firm \<times> InflationModel)" where
  "Firm_step f model =
     (case demand_pressure model of
        Inl e \<Rightarrow> Inl e
      | Inr dp \<Rightarrow>
         (let capacity_change = 0.1 * dp
          in case truediv (current_production f) (production_capacity f) of
               Inl e \<Rightarrow> Inl e
             | Inr u \<Rightarrow>
                (let new_utilization = max 0.5 (min (u + capacity_change) 1.0);
                     f1 = f\<lparr>current_production := new_utilization * production_capacity f\<rparr>;
                     model1 = model\<lparr>total_production :=
                                total_production model + current_production f1\<rparr>;
                     cost_push = max 0 dp * 0.5;
                     aggregate_expectations = get_average_inflation_expectation model1;
                     expectation_effect = 0.3 * aggregate_expectations;
                     cb_target = inflation_target (central_bank model1);
                     target_adjustment =
                       central_bank_influence f1 * (cb_target - current_inflation model1);
                     price_adjustment = cost_push + expectation_effect + target_adjustment;
                     bounded_adjustment = max (- 0.05) (min price_adjustment 0.1);
                     f2 = f1\<lparr>price_level := price_level f1 * (1 + bounded_adjustment)\<rparr>
                 in Inr (f2, model1\<lparr>price_index_numerator :=
                            price_index_numerator model1
                              + price_level f2 * current_production f2\<rparr>))))"

definition CentralBank_init :: "real \<Rightarrow> CentralBank" where
  "CentralBank_init target =
     \<lparr>inflation_target = target, interest_rate = 0.05, taylor_inflation_weight = 1.5,
      taylor_output_weight = 0.5, nominal_rate = 0.0642\<rparr>"

definition CentralBank_step :: "InflationModel \<Rightarrow> error + InflationModel" where
  "CentralBank_step model =
     (let cb = central_bank model;
          inflation_gap = current_inflation model - inflation_target cb
      in case truediv (aggregate_demand model) (total_production model) of
           Inl e \<Rightarrow> Inl e
         | Inr q \<Rightarrow>
            (let output_gap = q - 1;
                 target_rate = nominal_rate cb + current_inflation model
                                 + taylor_inflation_weight cb * inflation_gap
                                 + taylor_output_weight cb * output_gap;
                 adjustment_speed = 0.5;
                 r = interest_rate cb + adjustment_speed * (target_rate - interest_rate cb)
             in Inr (model\<lparr>central_bank :=
                        cb\<lparr>interest_rate := max 0.01 (min r 0.20)\<rparr>\<rparr>)))"

section \<open>Inflation model: construction, scheduler and step\<close>

record config =
  cfg_num_households :: nat
  cfg_num_firms :: nat
  cfg_banking_inclusion_rate :: real
  cfg_formal_sector_size :: real
  cfg_inflation_target :: real
  cfg_initial_inflation :: real
  cfg_inflation_shock_size :: real

definition model_reporters :: "InflationModel \<Rightarrow> model_vars" where
  "model_reporters m =
     \<lparr>Inflation = current_inflation m,
      Interest_Rate = interest_rate (central_bank m),
      Aggregate_Demand = aggregate_demand m,
      Total_Production = total_production m,
      Inflation_Gap = current_inflation m - inflation_target (central_bank m),
      Formal_Inflation_Expectation = get_formal_inflation_expectation m,
      Informal_Inflation_Expectation = get_informal_inflation_expectation m\<rparr>"

fun agent_reporters :: "nat \<Rightarrow> agent \<Rightarrow> agent_vars" where
  "agent_reporters uid (AHousehold h) =
     \<lparr>AgentID = uid, Formal = Some (formal h), Type = ''Household'',
      Expected_Inflation = Some (expected_inflation h), Price_Level = None,
      Savings = Some (savings h)\<rparr>"
| "agent_reporters uid (AFirm f) =
     \<lparr>AgentID = uid, Formal = Some (firm_formal f), Type = ''Firm'',
      Expected_Inflation = None, Price_Level = Some (price_level f), Savings = None\<rparr>"
| "agent_reporters uid ACentralBank =
     \<lparr>AgentID = uid, Formal = None, Type = ''CentralBank'',
      Expected_Inflation = None, Price_Level = None, Savings = None\<rparr>"

definition collect :: "InflationModel \<Rightarrow> InflationModel" where
  "collect m =
     m\<lparr>model_vars_series := model_vars_series m @ [model_reporters m],
       agent_vars_series := agent_vars_series m
          @ [map (\<lambda>(uid, a). agent_reporters uid a)
               (zip [0 ..< length (schedule m)] (schedule m))]\<rparr>"

text \<open>
  The model draws from numpy's process-wide generator. \<open>rng k\<close> is the value returned by
  the \<open>k\<close>-th call on that generator during the construction, whichever distribution the
  call asks for. Each household takes three draws (formality, base income, savings), each
  firm two (formality, base capacity).
\<close>

fun create_households :: "nat \<Rightarrow> (nat \<Rightarrow> real) \<Rightarrow> nat \<Rightarrow> InflationModel \<Rightarrow> InflationModel" where
  "create_households 0 rng k m = m"
| "create_households (Suc n) rng k m =
     (let is_formal = rng k < banking_inclusion_rate m;
          base_income = rng (k + 1);
          income_factor = (if is_formal then 1.2 else 0.8);
          h = Household_init m is_formal (rng (k + 2) * income_factor)
                (base_income * income_factor)
      in create_households n rng (k + 3) (m\<lparr>schedule := schedule m @ [AHousehold h]\<rparr>))"

fun create_firms :: "nat \<Rightarrow> (nat \<Rightarrow> real) \<Rightarrow> nat \<Rightarrow> InflationModel \<Rightarrow> InflationModel" where
  "create_firms 0 rng k m = m"
| "create_firms (Suc n) rng k m =
     (let is_formal = rng k < formal_sector_size m;
          base_capacity = rng (k + 1);
          capacity_factor = (if is_formal then 1.3 else 0.7);
          capacity = base_capacity * capacity_factor;
          f = Firm_init is_formal capacity
      in create_firms n rng (k + 2)
           (m\<lparr>schedule := schedule m @ [AFirm f],
              total_production_capacity := total_production_capacity m + capacity\<rparr>))"

definition InflationModel_init :: "config \<Rightarrow> (nat \<Rightarrow> real) \<Rightarrow> InflationModel" where
  "InflationModel_init cfg rng =
     (let m0 = \<lparr>num_households = cfg_num_households cfg,
                num_firms = cfg_num_firms cfg,
                banking_inclusion_rate = cfg_banking_inclusion_rate cfg,
                formal_sector_size = cfg_formal_sector_size cfg,
                current_inflation = cfg_initial_inflation cfg,
                price_index = 1.0, previous_price_index = 1.0,
                aggregate_demand = 0, total_production = 0,
                price_index_numerator = 0, total_production_capacity = 0,
                central_bank = CentralBank_init (cfg_inflation_target cfg),
                schedule = [ACentralBank],
                model_vars_series = [], agent_vars_series = []\<rparr>;
          m1 = create_households (cfg_num_households cfg) rng 0 m0;
          m2 = create_firms (cfg_num_firms cfg) rng (3 * cfg_num_households cfg) m1;
          m3 = (if cfg_inflation_shock_size cfg > 0
                then m2\<lparr>current_inflation := current_inflation m2 + cfg_inflation_shock_size cfg\<rparr>
                else m2)
      in collect m3)"

text \<open>
  One activation. The scheduler (mesa's \<open>RandomActivation\<close>) calls \<open>step\<close> on every
  registered agent once, in an order it shuffles anew each tick; the order is an input.
\<close>

definition agent_step :: "nat \<Rightarrow> InflationModel \<Rightarrow> error + InflationModel" where
  "agent_step uid m =
     (if uid < length (schedule m) then
        (case schedule m ! uid of
           AHousehold h \<Rightarrow>
             (case Household_step h m of
                (h', m') \<Rightarrow> Inr (m'\<lparr>schedule := (schedule m')[uid := AHousehold h']\<rparr>))
         | AFirm f \<Rightarrow>
             (case Firm_step f m of
                Inl e \<Rightarrow> Inl e
              | Inr (f', m') \<Rightarrow> Inr (m'\<lparr>schedule := (schedule m')[uid := AFirm f']\<rparr>))
         | ACentralBank \<Rightarrow> CentralBank_step m)
      else Inl KeyError)"

fun schedule_step :: "nat list \<Rightarrow> InflationModel \<Rightarrow> error + InflationModel" where
  "schedule_step [] m = Inr m"
| "schedule_step (uid # rest) m =
     (case agent_step uid m of Inl e \<Rightarrow> Inl e | Inr m' \<Rightarrow> schedule_step rest m')"

definition reset_aggregates :: "InflationModel \<Rightarrow> InflationModel" where
  "reset_aggregates m = m\<lparr>aggregate_demand := 0, total_production := 0, price_index_numerator := 0\<rparr>"

text \<open>Lines 116 to 122 of model.py: the new price index and the inflation rate.\<close>

definition finalize :: "InflationModel \<Rightarrow> error + InflationModel" where
  "finalize m =
     (let m1 = m\<lparr>previous_price_index := price_index m\<rparr>;
          m2 = (if total_production m1 > 0
                then m1\<lparr>price_index := price_index_numerator m1 / total_production m1\<rparr>
                else m1)
      in case truediv (price_index m2) (previous_price_index m2) of
           Inl e \<Rightarrow> Inl e
         | Inr q \<Rightarrow> Inr (m2\<lparr>current_inflation := q - 1\<rparr>))"

definition InflationModel_step :: "nat list \<Rightarrow> InflationModel \<Rightarrow> error + InflationModel" where
  "InflationModel_step order m =
     (case schedule_step order (reset_aggregates m) of
        Inl e \<Rightarrow> Inl e
      | Inr m1 \<Rightarrow> (case finalize m1 of Inl e \<Rightarrow> Inl e | Inr m2 \<Rightarrow> Inr (collect m2)))"

text \<open>A run: the construction, then one step for each activation order of the list.\<close>

fun run_steps :: "nat list list \<Rightarrow> InflationModel \<Rightarrow> error + InflationModel" where
  "run_steps [] m = Inr m"
| "run_steps (order # orders) m =
     (case InflationModel_step order m of Inl e \<Rightarrow> Inl e | Inr m' \<Rightarrow> run_steps orders m')"

definition InflationModel_run :: "config \<Rightarrow> (nat \<Rightarrow> real) \<Rightarrow> nat list list \<Rightarrow> error + InflationModel" where
  "InflationModel_run cfg rng orders = run_steps orders (InflationModel_init cfg rng)"

section \<open>Schelling model (Midterm\_1/schelling/agents.py, Midterm\_1/schelling/model.py)\<close>

record SchellingAgent =
  income_class :: real
  type :: real
  threshold :: real
  past_moves :: nat
  adaptive :: bool
  move_cost :: real
  pos :: "int \<times> int"

record SchellingModel =
  width :: int
  height :: int
  density :: real
  radius :: int
  agents :: "SchellingAgent list"
  happy :: nat
  running :: bool
  happy_series :: "nat list"
  share_happy_series :: "real list"

text \<open>
  \<open>SchellingAgent.__init__\<close>: \<open>skw_income\<close> is the value numpy's process-wide generator
  returns for the lognormal draw and \<open>thr\<close> the value of \<open>random.uniform(0, 1)\<close>, drawn
  from the process-wide generator of Python's \<open>random\<close> module. The position is the cell
  where \<open>place_agent\<close> puts the new agent.
\<close>

definition SchellingAgent_init :: "real \<Rightarrow> real \<Rightarrow> int \<times> int \<Rightarrow> error + SchellingAgent" where
  "SchellingAgent_init skw_income thr p =
     (case truediv skw_income (1 + skw_income) of
        Inl e \<Rightarrow> Inl e
      | Inr ic \<Rightarrow>
          Inr \<lparr>income_class = ic, type = ic, threshold = thr, past_moves = 0,
               adaptive = False, move_cost = 1, pos = p\<rparr>)"

text \<open>
  The grid is mesa's \<open>SingleGrid\<close> with \<open>torus=True\<close>: a cell holds at most one agent, so
  the grid is read off the agents' positions. \<open>coord_iter\<close> visits the cells column by
  column. The Moore neighbourhood of radius \<open>r\<close> wraps around the edges, holds each cell
  once and leaves the centre out.
\<close>

definition coord_iter :: "SchellingModel \<Rightarrow> (int \<times> int) list" where
  "coord_iter m = concat (map (\<lambda>x. map (\<lambda>y. (x, y)) [0 .. height m - 1]) [0 .. width m - 1])"

definition get_neighborhood :: "SchellingModel \<Rightarrow> int \<times> int \<Rightarrow> (int \<times> int) list" where
  "get_neighborhood m p =
     filter (\<lambda>c. c \<noteq> p)
       (remdups (concat (map (\<lambda>dx. map (\<lambda>dy. ((fst p + dx) mod width m, (snd p + dy) mod height m))
                                 [- radius m .. radius m])
                         [- radius m .. radius m])))"

definition get_neighbors :: "SchellingModel \<Rightarrow> int \<times> int \<Rightarrow> SchellingAgent list" where
  "get_neighbors m p = filter (\<lambda>a. pos a \<in> set (get_neighborhood m p)) (agents m)"

definition empties :: "SchellingModel \<Rightarrow> (int \<times> int) list" where
  "empties m = filter (\<lambda>c. c \<notin> set (map pos (agents m))) (coord_iter m)"

text \<open>
  \<open>random.sample(xs, k)\<close>: \<open>k\<close> elements of \<open>xs\<close> at distinct places, in the order drawn.
  \<open>pick\<close> stands for the generator: it names the place taken at each draw.
\<close>

fun sample_with :: "(nat \<Rightarrow> nat) \<Rightarrow> 'a list \<Rightarrow> nat \<Rightarrow> 'a list" where
  "sample_with pick xs 0 = []"
| "sample_with pick xs (Suc k) =
     (if xs = [] then []
      else (let j = pick k mod length xs
            in xs ! j # sample_with pick (take j xs @ drop (Suc j) xs) k))"

definition share_alike :: "SchellingAgent \<Rightarrow> SchellingAgent list \<Rightarrow> real" where
  "share_alike self neighbors =
     (let similar = length (filter (\<lambda>n. \<bar>type n - type self\<bar> \<le> 0.1) neighbors)
      in real similar / real (length neighbors))"

definition is_satisfied :: "SchellingAgent \<Rightarrow> SchellingAgent list \<Rightarrow> bool" where
  "is_satisfied self neighbors =
     (if neighbors = [] then False else share_alike self neighbors \<ge> threshold self)"

text \<open>The value of \<open>evaluate_location\<close> is a float or \<open>-float('inf')\<close>.\<close>

datatype score = MinusInf | Score real

fun score_gt :: "score \<Rightarrow> score \<Rightarrow> bool" where
  "score_gt (Score a) (Score b) = (a > b)"
| "score_gt (Score a) MinusInf = True"
| "score_gt MinusInf b = False"

definition evaluate_location :: "SchellingModel \<Rightarrow> SchellingAgent \<Rightarrow> int \<times> int \<Rightarrow> error + score" where
  "evaluate_location m self p =
     (let neighbors = get_neighbors m p
      in if neighbors = [] then Inr MinusInf
         else (case truediv 1 (type self + 0.01) of
                 Inl e \<Rightarrow> Inl e
               | Inr q \<Rightarrow>
                   (let effective_cost = move_cost self * q
                    in Inr (Score (share_alike self neighbors - effective_cost)))))"

fun best_candidate ::
  "SchellingModel \<Rightarrow> SchellingAgent \<Rightarrow> (int \<times> int) list \<Rightarrow> (int \<times> int) option \<times> score
     \<Rightarrow> error + ((int \<times> int) option \<times> score)" where
  "best_candidate m self [] best = Inr best"
| "best_candidate m self (p # ps) (best_pos, best_eval) =
     (case evaluate_location m self p of
        Inl e \<Rightarrow> Inl e
      | Inr ev \<Rightarrow>
          (if score_gt ev best_eval then best_candidate m self ps (Some p, ev)
           else best_candidate m self ps (best_pos, best_eval)))"

definition move :: "nat \<Rightarrow> (nat \<Rightarrow> nat) \<Rightarrow> SchellingModel \<Rightarrow> error + SchellingModel" where
  "move i pick m =
     (if i < length (agents m) then
        (let self = agents m ! i;
             neighbors = get_neighbors m (pos self)
         in if is_satisfied self neighbors then Inr (m\<lparr>happy := happy m + 1\<rparr>)
            else
              (let empty_cells = empties m;
                   candidates = sample_with pick empty_cells (min (length empty_cells) 10)
               in case best_candidate m self candidates (None, MinusInf) of
                    Inl e \<Rightarrow> Inl e
                  | Inr (None, ev) \<Rightarrow> Inr m
                  | Inr (Some best_pos, ev) \<Rightarrow>
                      (let a1 = self\<lparr>pos := best_pos, past_moves := past_moves self + 1\<rparr>;
                           a2 = (if adaptive a1 \<and> past_moves a1 \<ge> 10
                                 then a1\<lparr>threshold := min 1.0 (threshold a1 - 0.01)\<rparr>
                                 else a1)
                       in Inr (m\<lparr>agents := (agents m)[i := a2]\<rparr>))))
      else Inl KeyError)"

text \<open>
  \<open>shuffle_do("move")\<close> calls \<open>move\<close> on every agent once, in a shuffled order. An
  activation is the agent's index together with the generator its \<open>random.sample\<close> uses.
\<close>

fun shuffle_do_move :: "(nat \<times> (nat \<Rightarrow> nat)) list \<Rightarrow> SchellingModel \<Rightarrow> error + SchellingModel" where
  "shuffle_do_move [] m = Inr m"
| "shuffle_do_move ((i, pick) # rest) m =
     (case move i pick m of Inl e \<Rightarrow> Inl e | Inr m' \<Rightarrow> shuffle_do_move rest m')"

definition share_happy :: "SchellingModel \<Rightarrow> real" where
  "share_happy m =
     (if length (agents m) > 0 then (real (happy m) / real (length (agents m))) * 100 else 0)"

definition schelling_collect :: "SchellingModel \<Rightarrow> SchellingModel" where
  "schelling_collect m =
     m\<lparr>happy_series := happy_series m @ [happy m],
       share_happy_series := share_happy_series m @ [share_happy m]\<rparr>"

definition SchellingModel_step ::
  "(nat \<times> (nat \<Rightarrow> nat)) list \<Rightarrow> SchellingModel \<Rightarrow> error + SchellingModel" where
  "SchellingModel_step acts m =
     (case shuffle_do_move acts (m\<lparr>happy := 0\<rparr>) of
        Inl e \<Rightarrow> Inl e
      | Inr m1 \<Rightarrow>
          (let m2 = schelling_collect m1
           in Inr (m2\<lparr>running := happy m2 < length (agents m2)\<rparr>)))"

text \<open>
  Construction. \<open>mrandom k\<close> is the \<open>k\<close>-th value of the model's own generator (the one the
  seed initialises), \<open>np_rng n\<close> and \<open>py_rng n\<close> the values the two process-wide generators
  return for the \<open>n\<close>-th agent.
\<close>

fun place_agents ::
  "(int \<times> int) list \<Rightarrow> (nat \<Rightarrow> real) \<Rightarrow> (nat \<Rightarrow> real) \<Rightarrow> (nat \<Rightarrow> real) \<Rightarrow> nat
     \<Rightarrow> SchellingModel \<Rightarrow> error + SchellingModel" where
  "place_agents [] mrandom np_rng py_rng k m = Inr m"
| "place_agents (p # ps) mrandom np_rng py_rng k m =
     (if mrandom k < density m then
        (case SchellingAgent_init (np_rng (length (agents m))) (py_rng (length (agents m))) p of
           Inl e \<Rightarrow> Inl e
         | Inr a \<Rightarrow> place_agents ps mrandom np_rng py_rng (Suc k) (m\<lparr>agents := agents m @ [a]\<rparr>))
      else place_agents ps mrandom np_rng py_rng (Suc k) m)"

definition SchellingModel_init ::
  "int \<Rightarrow> int \<Rightarrow> real \<Rightarrow> int \<Rightarrow> (nat \<Rightarrow> real) \<Rightarrow> (nat \<Rightarrow> real) \<Rightarrow> (nat \<Rightarrow> real)
     \<Rightarrow> error + SchellingModel" where
  "SchellingModel_init w h d r mrandom np_rng py_rng =
     (let m0 = \<lparr>width = w, height = h, density = d, radius = r, agents = [], happy = 0,
                running = True, happy_series = [], share_happy_series = []\<rparr>
      in case place_agents (coord_iter m0) mrandom np_rng py_rng 0 m0 of
           Inl e \<Rightarrow> Inl e
         | Inr m1 \<Rightarrow> Inr (schelling_collect m1))"

fun schelling_run_steps ::
  "(nat \<times> (nat \<Rightarrow> nat)) list list \<Rightarrow> SchellingModel \<Rightarrow> error + SchellingModel" where
  "schelling_run_steps [] m = Inr m"
| "schelling_run_steps (acts # rest) m =
     (case SchellingModel_step acts m of
        Inl e \<Rightarrow> Inl e
      | Inr m' \<Rightarrow> schelling_run_steps rest m')"

section \<open>Invariants and example inputs\<close>

text \<open>What \<open>Household.__init__\<close> fixes and no step changes.\<close>

definition household_wf :: "Household \<Rightarrow> bool" where
  "household_wf h =
     (consumption_rate h = 0.8
      \<and> interest_rate_sensitivity h = (if formal h then 0.5 else 0.1))"

definition schedule_wf :: "InflationModel \<Rightarrow> bool" where
  "schedule_wf m = (\<forall>h. AHousehold h \<in> set (schedule m) \<longrightarrow> household_wf h)"

definition rate_bounded :: "InflationModel \<Rightarrow> bool" where
  "rate_bounded m =
     (0.01 \<le> interest_rate (central_bank m) \<and> interest_rate (central_bank m) \<le> 0.20
      \<and> (\<forall>row \<in> set (model_vars_series m).
            0.01 \<le> Interest_Rate row \<and> Interest_Rate row \<le> 0.20))"

text \<open>
  A model with one household and one firm, the other options at their defaults. The
  draws make the household formal with base income 50 and savings draw 100, and the firm
  formal with base capacity 100.
\<close>

definition example_cfg :: config where
  "example_cfg =
     \<lparr>cfg_num_households = 1, cfg_num_firms = 1, cfg_banking_inclusion_rate = 0.6,
      cfg_formal_sector_size = 0.7, cfg_inflation_target = 0.03,
      cfg_initial_inflation = 0.08, cfg_inflation_shock_size = 0\<rparr>"

definition example_rng :: "nat \<Rightarrow> real" where
  "example_rng k =
     (if k = 0 then 0.3 else if k = 1 then 50 else if k = 2 then 100
      else if k = 3 then 0.3 else 100)"

section \<open>Properties\<close>

subsection \<open>Fields that the agent steps leave alone\<close>

lemma demand_pressure_cases:
  "demand_pressure m =
     (if total_production_capacity m = 0 then Inl ZeroDivisionError
      else Inr (aggregate_demand m / total_production_capacity m - 1))"
  by (simp add: demand_pressure_def truediv_def)

lemma Firm_step_model_fields:
  assumes "Firm_step f m = Inr (f', m')"
  shows "central_bank m' = central_bank m" "schedule m' = schedule m"
    "model_vars_series m' = model_vars_series m" "aggregate_demand m' = aggregate_demand m"
    "total_production_capacity m' = total_production_capacity m"
  using assms by (auto simp: Firm_step_def Let_def split: sum.splits)

lemma Household_step_fields:
  assumes "Household_step h m = (h', m')"
  shows "central_bank m' = central_bank m" "schedule m' = schedule m"
    "model_vars_series m' = model_vars_series m"
    "consumption_rate h' = consumption_rate h" "formal h' = formal h"
    "interest_rate_sensitivity h' = interest_rate_sensitivity h" "income h' = income h"
    "total_production_capacity m' = total_production_capacity m"
  using assms by (auto simp: Household_step_def Let_def)

lemma CentralBank_step_fields:
  assumes "CentralBank_step m = Inr m'"
  shows "schedule m' = schedule m" "model_vars_series m' = model_vars_series m"
    "aggregate_demand m' = aggregate_demand m"
    "total_production_capacity m' = total_production_capacity m"
    "0.01 \<le> interest_rate (central_bank m')" "interest_rate (central_bank m') \<le> 0.20"
  using assms by (auto simp: CentralBank_step_def Let_def max_def min_def split: sum.splits)

lemma finalize_fields:
  assumes "finalize m = Inr m'"
  shows "central_bank m' = central_bank m" "schedule m' = schedule m"
    "model_vars_series m' = model_vars_series m"
  using assms by (auto simp: finalize_def Let_def split: sum.splits if_splits)

text \<open>The three outcomes of one activation, for the case analyses below.\<close>

lemma agent_step_cases:
  assumes "agent_step uid m = Inr m'"
  obtains
    (household) h h' m1 where "uid < length (schedule m)" "schedule m ! uid = AHousehold h"
      "Household_step h m = (h', m1)" "m' = m1\<lparr>schedule := (schedule m1)[uid := AHousehold h']\<rparr>"
  | (firm) f f' m1 where "uid < length (schedule m)" "schedule m ! uid = AFirm f"
      "Firm_step f m = Inr (f', m1)" "m' = m1\<lparr>schedule := (schedule m1)[uid := AFirm f']\<rparr>"
  | (bank) "uid < length (schedule m)" "schedule m ! uid = ACentralBank"
      "CentralBank_step m = Inr m'"
proof (cases "uid < length (schedule m)")
  case False
  with assms show ?thesis by (simp add: agent_step_def)
next
  case True
  show ?thesis
  proof (cases "schedule m ! uid")
    case (AHousehold h)
    obtain h' m1 where "Household_step h m = (h', m1)" by (cases "Household_step h m")
    with assms True AHousehold show ?thesis by (intro household) (auto simp: agent_step_def)
  next
    case (AFirm f)
    with assms True show ?thesis
      by (auto simp: agent_step_def split: sum.splits intro: firm)
  next
    case ACentralBank
    with assms True show ?thesis by (intro bank) (auto simp: agent_step_def)
  qed
qed

subsection \<open>The interest rate stays within its bounds\<close>

lemma agent_step_rate_bounded:
  assumes "rate_bounded m" "agent_step uid m = Inr m'"
  shows "rate_bounded m'"
  using assms(2)
proof (cases rule: agent_step_cases)
  case (household h h' m1)
  with assms(1) Household_step_fields[OF household(3)] show ?thesis
    by (simp add: rate_bounded_def)
next
  case (firm f f' m1)
  with assms(1) Firm_step_model_fields[OF firm(3)] show ?thesis
    by (simp add: rate_bounded_def)
next
  case bank
  with assms(1) CentralBank_step_fields[OF bank(3)] show ?thesis
    by (simp add: rate_bounded_def)
qed

lemma schedule_step_rate_bounded:
  "rate_bounded m \<Longrightarrow> schedule_step order m = Inr m' \<Longrightarrow> rate_bounded m'"
proof (induction order arbitrary: m)
  case Nil
  then show ?case by simp
next
  case (Cons uid rest)
  then show ?case by (auto split: sum.splits dest: agent_step_rate_bounded)
qed

lemma InflationModel_step_cases:
  assumes "InflationModel_step order m = Inr m'"
  obtains m1 m2 where "schedule_step order (reset_aggregates m) = Inr m1"
    "finalize m1 = Inr m2" "m' = collect m2"
  using assms by (auto simp: InflationModel_step_def split: sum.splits)

lemma InflationModel_step_rate_bounded:
  assumes "rate_bounded m" "InflationModel_step order m = Inr m'"
  shows "rate_bounded m'"
proof -
  from assms(2) obtain m1 m2 where s: "schedule_step order (reset_aggregates m) = Inr m1"
    and f: "finalize m1 = Inr m2" and m': "m' = collect m2"
    by (rule InflationModel_step_cases)
  from assms(1) have "rate_bounded (reset_aggregates m)"
    by (simp add: rate_bounded_def reset_aggregates_def)
  then have "rate_bounded m1"
    using s by (rule schedule_step_rate_bounded)
  with finalize_fields[OF f] have "rate_bounded m2" by (simp add: rate_bounded_def)
  then show ?thesis unfolding m' by (simp add: rate_bounded_def collect_def model_reporters_def)
qed

lemma run_steps_rate_bounded:
  "rate_bounded m \<Longrightarrow> run_steps orders m = Inr m' \<Longrightarrow> rate_bounded m'"
proof (induction orders arbitrary: m)
  case Nil
  then show ?case by simp
next
  case (Cons order rest)
  then show ?case by (auto split: sum.splits dest: InflationModel_step_rate_bounded)
qed

lemma create_households_fields:
  "central_bank (create_households n rng k m) = central_bank m"
  "model_vars_series (create_households n rng k m) = model_vars_series m"
  "current_inflation (create_households n rng k m) = current_inflation m"
  by (induction n rng k m rule: create_households.induct) (simp_all add: Let_def)

lemma create_firms_fields:
  "central_bank (create_firms n rng k m) = central_bank m"
  "model_vars_series (create_firms n rng k m) = model_vars_series m"
  "current_inflation (create_firms n rng k m) = current_inflation m"
  by (induction n rng k m rule: create_firms.induct) (simp_all add: Let_def)

lemma InflationModel_init_rate_bounded: "rate_bounded (InflationModel_init cfg rng)"
  by (simp add: InflationModel_init_def Let_def rate_bounded_def collect_def model_reporters_def
      create_households_fields create_firms_fields CentralBank_init_def)

lemmas eval_defs = InflationModel_run_def InflationModel_init_def collect_def model_reporters_def
  get_formal_inflation_expectation_def get_informal_inflation_expectation_def
  get_average_inflation_expectation_def mean_expectation_def households_of_def
  Household_init_def Firm_init_def CentralBank_init_def Let_def
  InflationModel_step_def reset_aggregates_def finalize_def agent_step_def
  Household_step_def Firm_step_def CentralBank_step_def truediv_def adjusted_consumption_def
  demand_pressure_def numeral_3_eq_3 upt_rec

text \<open>
  C5. In every run, whatever the configuration, the draws and the activation orders, the
  central bank's interest rate lies in [0.01, 0.20] at the end of each tick, and so does
  the Interest\_Rate entry of every collected snapshot, the one of tick 0 included.
\<close>

theorem interest_rate_bounds:
  assumes "InflationModel_run cfg rng orders = Inr m"
  shows "0.01 \<le> interest_rate (central_bank m) \<and> interest_rate (central_bank m) \<le> 0.20
     \<and> list_all (\<lambda>row. 0.01 \<le> Interest_Rate row \<and> Interest_Rate row \<le> 0.20)
         (model_vars_series m)"
proof -
  have "rate_bounded m"
    using InflationModel_init_rate_bounded[of cfg rng] assms unfolding InflationModel_run_def
    by (rule run_steps_rate_bounded)
  then show ?thesis by (simp add: rate_bounded_def list_all_iff)
qed

text \<open>
  C6. A firm with positive capacity ends its step with its production between 50\% and
  100\% of that capacity. The step raises only when the total production capacity of the
  model is zero, and then the firm is unchanged.
\<close>

theorem Firm_step_utilization:
  assumes "production_capacity f > 0"
  shows "case Firm_step f m of
           Inl e \<Rightarrow> e = ZeroDivisionError \<and> total_production_capacity m = 0
         | Inr (f', m') \<Rightarrow> 0.5 * production_capacity f \<le> current_production f'
              \<and> current_production f' \<le> 1.0 * production_capacity f
              \<and> production_capacity f' = production_capacity f"
  using assms
  by (auto simp: Firm_step_def demand_pressure_def truediv_def Let_def max_def min_def
      split: sum.splits)

theorem interest_rate_bounds_witness:
  "case InflationModel_run example_cfg example_rng [[1, 2, 0]] of
     Inl e \<Rightarrow> False
   | Inr m \<Rightarrow> interest_rate (central_bank m) = 0.01
       \<and> 0.01 \<le> interest_rate (central_bank m) \<and> interest_rate (central_bank m) \<le> 0.20
       \<and> list_all (\<lambda>row. 0.01 \<le> Interest_Rate row \<and> Interest_Rate row \<le> 0.20)
           (model_vars_series m)"
proof -
  have "\<exists>m. InflationModel_run example_cfg example_rng [[1, 2, 0]] = Inr m
          \<and> interest_rate (central_bank m) = 0.01"
    by (simp add: eval_defs example_cfg_def example_rng_def)
  then obtain m where m: "InflationModel_run example_cfg example_rng [[1, 2, 0]] = Inr m"
    and r: "interest_rate (central_bank m) = 0.01" by blast
  from interest_rate_bounds[OF m] m r show ?thesis by simp
qed

theorem Firm_step_utilization_witness:
  "(0::real) < 130
   \<and> (case Firm_step (Firm_init True 130) (InflationModel_init example_cfg example_rng) of
        Inl e \<Rightarrow> False
      | Inr (f', m') \<Rightarrow> current_production f' = 91
          \<and> 0.5 * 130 \<le> current_production f' \<and> current_production f' \<le> 1.0 * 130)"
proof -
  have c: "production_capacity (Firm_init True 130) > 0" by (simp add: Firm_init_def)
  have "\<exists>f' m'. Firm_step (Firm_init True 130) (InflationModel_init example_cfg example_rng)
            = Inr (f', m') \<and> current_production f' = 91"
    by (simp add: eval_defs example_cfg_def example_rng_def)
  then obtain f' m' where s: "Firm_step (Firm_init True 130)
      (InflationModel_init example_cfg example_rng) = Inr (f', m')"
    and p: "current_production f' = 91" by blast
  from Firm_step_utilization[OF c, of "InflationModel_init example_cfg example_rng"] s p
  show ?thesis by (simp add: Firm_init_def)
qed

end
